theory Spec2Isabelle
  imports Main
begin

section \<open>Results and C++ integer arithmetic\<close>

text \<open>
  The index functions of \<^verbatim>\<open>dlaf/matrix/util_distribution.h\<close> take and return
  \<^verbatim>\<open>SizeType\<close> and \<^verbatim>\<open>int\<close> values. \<^verbatim>\<open>SizeType\<close> is declared in
  \<^verbatim>\<open>dlaf/types.h\<close>, which is not among the sources, so no width is known for it:
  indices, sizes and ranks are integers (\<^typ>\<open>int\<close>) here, and every statement below
  is about values the C++ types can hold without overflow.

  A call either returns a value or stops: with a failed assertion, or in undefined
  behaviour (a division by zero, reachable only when the assertions are compiled out).
\<close>

datatype error = PreconditionError string | UndefinedBehaviour

type_synonym 'a result = "error + 'a"

definition and_then :: "'a result \<Rightarrow> ('a \<Rightarrow> 'b result) \<Rightarrow> 'b result" where
  "and_then m f = (case m of Inl e \<Rightarrow> Inl e | Inr v \<Rightarrow> f v)"

text \<open>
  Modelled from the spec: the macro \<^verbatim>\<open>DLAF_ASSERT_HEAVY\<close> of
  \<^verbatim>\<open>dlaf/common/assert.h\<close>, which is not among the sources. Violations "fail with a
  precondition error in debug builds and are undefined (or caller-is-trusted) in release
  builds": with \<open>heavy\<close> (a debug build) a false expression stops the call with the
  error, otherwise the expression is not looked at and the call goes on with \<open>k\<close>, the
  rest of the function body. The string is the text of the asserted expression.
\<close>

definition DLAF_ASSERT_HEAVY :: "bool \<Rightarrow> bool \<Rightarrow> string \<Rightarrow> 'a result \<Rightarrow> 'a result" where
  "DLAF_ASSERT_HEAVY heavy expr txt k =
     (if heavy \<and> \<not> expr then Inl (PreconditionError txt) else k)"

text \<open>
  The operators \<^verbatim>\<open>/\<close> and \<^verbatim>\<open>%\<close> of C++ on integers: the quotient is truncated
  towards zero, the remainder has the sign of the dividend, and a zero divisor is
  undefined behaviour.
\<close>

definition cpp_div :: "int \<Rightarrow> int \<Rightarrow> int result" where
  "cpp_div a b =
     (if b = 0 then Inl UndefinedBehaviour else Inr (sgn a * sgn b * (\<bar>a\<bar> div \<bar>b\<bar>)))"

definition cpp_mod :: "int \<Rightarrow> int \<Rightarrow> int result" where
  "cpp_mod a b =
     (if b = 0 then Inl UndefinedBehaviour else Inr (sgn a * (\<bar>a\<bar> mod \<bar>b\<bar>)))"


section \<open>Distribution index math\<close>

text \<open>\<^verbatim>\<open>tileFromElement\<close>: the index of the tile which contains the element.\<close>

definition tileFromElement :: "bool \<Rightarrow> int \<Rightarrow> int \<Rightarrow> int result" where
  "tileFromElement heavy element block_size =
     DLAF_ASSERT_HEAVY heavy (0 \<le> element) ''0 <= element'' (
     DLAF_ASSERT_HEAVY heavy (0 < block_size) ''0 < block_size'' (
       cpp_div element block_size))"

text \<open>\<^verbatim>\<open>tileElementFromElement\<close>: the index of the element within its tile.\<close>

definition tileElementFromElement :: "bool \<Rightarrow> int \<Rightarrow> int \<Rightarrow> int result" where
  "tileElementFromElement heavy element block_size =
     DLAF_ASSERT_HEAVY heavy (0 \<le> element) ''0 <= element'' (
     DLAF_ASSERT_HEAVY heavy (0 < block_size) ''0 < block_size'' (
       cpp_mod element block_size))"

text \<open>\<^verbatim>\<open>elementFromTileAndTileElement\<close>: the element with index
  \<open>tile_element\<close> in the tile with index \<open>tile\<close>.\<close>

definition elementFromTileAndTileElement :: "bool \<Rightarrow> int \<Rightarrow> int \<Rightarrow> int \<Rightarrow> int result" where
  "elementFromTileAndTileElement heavy tile tile_element block_size =
     DLAF_ASSERT_HEAVY heavy (0 \<le> tile) ''0 <= tile'' (
     DLAF_ASSERT_HEAVY heavy (0 \<le> tile_element \<and> tile_element < block_size)
       ''0 <= tile_element && tile_element < block_size'' (
     DLAF_ASSERT_HEAVY heavy (0 < block_size) ''0 < block_size'' (
       Inr (tile * block_size + tile_element))))"

text \<open>\<^verbatim>\<open>rankGlobalTile\<close>: the rank of the process that stores the tile.\<close>

definition rankGlobalTile :: "bool \<Rightarrow> int \<Rightarrow> int \<Rightarrow> int \<Rightarrow> int \<Rightarrow> int result" where
  "rankGlobalTile heavy global_tile tiles_per_block grid_size src_rank =
     DLAF_ASSERT_HEAVY heavy (0 \<le> global_tile) ''0 <= global_tile'' (
     DLAF_ASSERT_HEAVY heavy (0 < tiles_per_block) ''0 < tiles_per_block'' (
     DLAF_ASSERT_HEAVY heavy (0 < grid_size) ''0 < grid_size'' (
     DLAF_ASSERT_HEAVY heavy (0 \<le> src_rank \<and> src_rank < grid_size)
       ''0 <= src_rank && src_rank < grid_size'' (
       and_then (cpp_div global_tile tiles_per_block) (\<lambda>global_block.
       cpp_mod (global_block + src_rank) grid_size)))))"

text \<open>\<^verbatim>\<open>localTileFromGlobalTile\<close>: the local index in process \<open>rank\<close> of the
  tile, or -1 when \<open>rank\<close> does not store it.\<close>

definition localTileFromGlobalTile ::
  "bool \<Rightarrow> int \<Rightarrow> int \<Rightarrow> int \<Rightarrow> int \<Rightarrow> int \<Rightarrow> int result" where
  "localTileFromGlobalTile heavy global_tile tiles_per_block grid_size rank src_rank =
     DLAF_ASSERT_HEAVY heavy (0 \<le> global_tile) ''0 <= global_tile'' (
     DLAF_ASSERT_HEAVY heavy (0 < tiles_per_block) ''0 < tiles_per_block'' (
     DLAF_ASSERT_HEAVY heavy (0 < grid_size) ''0 < grid_size'' (
     DLAF_ASSERT_HEAVY heavy (0 \<le> rank \<and> rank < grid_size)
       ''0 <= rank && rank < grid_size'' (
     DLAF_ASSERT_HEAVY heavy (0 \<le> src_rank \<and> src_rank < grid_size)
       ''0 <= src_rank && src_rank < grid_size'' (
       and_then (rankGlobalTile heavy global_tile tiles_per_block grid_size src_rank) (\<lambda>owner.
       if rank = owner then
         and_then (cpp_div global_tile tiles_per_block) (\<lambda>global_block.
         and_then (cpp_div global_block grid_size) (\<lambda>local_block.
         and_then (cpp_mod global_tile tiles_per_block) (\<lambda>tile_in_block.
         Inr (local_block * tiles_per_block + tile_in_block))))
       else Inr (- 1)))))))"

text \<open>\<^verbatim>\<open>nextLocalTileFromGlobalTile\<close>: the local index in process \<open>rank\<close> of
  the first global tile at or after \<open>global_tile\<close> that \<open>rank\<close> stores.\<close>

definition nextLocalTileFromGlobalTile ::
  "bool \<Rightarrow> int \<Rightarrow> int \<Rightarrow> int \<Rightarrow> int \<Rightarrow> int \<Rightarrow> int result" where
  "nextLocalTileFromGlobalTile heavy global_tile tiles_per_block grid_size rank src_rank =
     DLAF_ASSERT_HEAVY heavy (0 \<le> global_tile) ''0 <= global_tile'' (
     DLAF_ASSERT_HEAVY heavy (0 < tiles_per_block) ''0 < tiles_per_block'' (
     DLAF_ASSERT_HEAVY heavy (0 < grid_size) ''0 < grid_size'' (
     DLAF_ASSERT_HEAVY heavy (0 \<le> rank \<and> rank < grid_size)
       ''0 <= rank && rank < grid_size'' (
     DLAF_ASSERT_HEAVY heavy (0 \<le> src_rank \<and> src_rank < grid_size)
       ''0 <= src_rank && src_rank < grid_size'' (
       and_then (cpp_mod (rank + grid_size - src_rank) grid_size) (\<lambda>rank_to_src.
       and_then (cpp_div global_tile tiles_per_block) (\<lambda>global_block.
       and_then (cpp_mod global_block grid_size) (\<lambda>owner_to_src.
       and_then (cpp_div global_block grid_size) (\<lambda>local_block.
       if rank_to_src = owner_to_src then
         and_then (cpp_mod global_tile tiles_per_block) (\<lambda>tile_in_block.
         Inr (local_block * tiles_per_block + tile_in_block))
       else
         Inr ((if rank_to_src < owner_to_src then local_block + 1 else local_block)
              * tiles_per_block))))))))))"

text \<open>\<^verbatim>\<open>globalTileFromLocalTile\<close>: the global index of the tile that has index
  \<open>local_tile\<close> in process \<open>rank\<close>.\<close>

definition globalTileFromLocalTile ::
  "bool \<Rightarrow> int \<Rightarrow> int \<Rightarrow> int \<Rightarrow> int \<Rightarrow> int \<Rightarrow> int result" where
  "globalTileFromLocalTile heavy local_tile tiles_per_block grid_size rank src_rank =
     DLAF_ASSERT_HEAVY heavy (0 \<le> local_tile) ''0 <= local_tile'' (
     DLAF_ASSERT_HEAVY heavy (0 < tiles_per_block) ''0 < tiles_per_block'' (
     DLAF_ASSERT_HEAVY heavy (0 < grid_size) ''0 < grid_size'' (
     DLAF_ASSERT_HEAVY heavy (0 \<le> rank \<and> rank < grid_size)
       ''0 <= rank && rank < grid_size'' (
     DLAF_ASSERT_HEAVY heavy (0 \<le> src_rank \<and> src_rank < grid_size)
       ''0 <= src_rank && src_rank < grid_size'' (
       and_then (cpp_mod (rank + grid_size - src_rank) grid_size) (\<lambda>rank_to_src.
       and_then (cpp_div local_tile tiles_per_block) (\<lambda>local_block.
       and_then (cpp_mod local_tile tiles_per_block) (\<lambda>tile_in_block.
       Inr ((grid_size * local_block + rank_to_src) * tiles_per_block + tile_in_block)))))))))"

subsection \<open>Documented preconditions\<close>

text \<open>
  The \<^verbatim>\<open>@pre\<close> lines of the functions' documentation: \<open>pre_element\<close> for
  \<^verbatim>\<open>tileFromElement\<close> and \<^verbatim>\<open>tileElementFromElement\<close>, \<open>pre_tile_element\<close> for
  \<^verbatim>\<open>elementFromTileAndTileElement\<close>, \<open>pre_rank\<close> for \<^verbatim>\<open>rankGlobalTile\<close>, and
  \<open>pre_tile\<close> for \<^verbatim>\<open>localTileFromGlobalTile\<close>, \<^verbatim>\<open>nextLocalTileFromGlobalTile\<close>
  and \<^verbatim>\<open>globalTileFromLocalTile\<close>.
\<close>

definition pre_element :: "int \<Rightarrow> int \<Rightarrow> bool" where
  "pre_element element block_size \<longleftrightarrow> 0 \<le> element \<and> 0 < block_size"

definition pre_tile_element :: "int \<Rightarrow> int \<Rightarrow> int \<Rightarrow> bool" where
  "pre_tile_element tile tile_element block_size \<longleftrightarrow>
     0 \<le> tile \<and> (0 \<le> tile_element \<and> tile_element < block_size) \<and> 0 < block_size"

definition pre_rank :: "int \<Rightarrow> int \<Rightarrow> int \<Rightarrow> int \<Rightarrow> bool" where
  "pre_rank global_tile tiles_per_block grid_size src_rank \<longleftrightarrow>
     0 \<le> global_tile \<and> 0 < tiles_per_block \<and> 0 < grid_size \<and>
     (0 \<le> src_rank \<and> src_rank < grid_size)"

definition pre_tile :: "int \<Rightarrow> int \<Rightarrow> int \<Rightarrow> int \<Rightarrow> int \<Rightarrow> bool" where
  "pre_tile tile tiles_per_block grid_size rank src_rank \<longleftrightarrow>
     0 \<le> tile \<and> 0 < tiles_per_block \<and> 0 < grid_size \<and>
     (0 \<le> rank \<and> rank < grid_size) \<and> (0 \<le> src_rank \<and> src_rank < grid_size)"

subsection \<open>The unit test\<close>

text \<open>
  The rows of \<^verbatim>\<open>UtilDistribution.IndexConversion\<close>
  (\<^verbatim>\<open>test/unit/matrix/test_util_distribution.cpp\<close>), in the order of the struct's
  members, and the expectations the test checks on each row.
\<close>

datatype Parameters = Parameters int int int int int int int int int int int

definition tests :: "Parameters list" where
  "tests = [
     Parameters 10 1 0 1 0 31 3 0 3 3 1,     Parameters 10 1 0 5 0 102 10 0 2 2 2,
     Parameters 10 1 1 5 0 124 12 2 (- 1) 3 4, Parameters 10 1 4 5 3 124 12 0 (- 1) 3 4,
     Parameters 25 1 0 1 0 231 9 0 9 9 6,    Parameters 25 1 0 5 0 102 4 4 (- 1) 1 2,
     Parameters 25 1 3 5 4 102 4 3 0 0 2,    Parameters 25 1 4 5 3 0 0 3 (- 1) 0 0,
     Parameters 25 1 0 5 3 0 0 3 (- 1) 0 0,  Parameters 25 1 3 5 3 0 0 3 0 0 0,
     Parameters 10 3 0 1 0 31 3 0 3 3 1,     Parameters 10 2 0 5 0 102 10 0 2 2 2,
     Parameters 10 4 1 5 0 124 12 3 (- 1) 4 4, Parameters 10 4 4 5 3 124 12 1 (- 1) 4 4,
     Parameters 25 5 0 1 0 231 9 0 9 9 6,    Parameters 25 4 0 5 0 652 26 1 (- 1) 8 2,
     Parameters 25 4 1 5 0 652 26 1 6 6 2,   Parameters 25 4 2 5 0 652 26 1 (- 1) 4 2,
     Parameters 25 3 3 5 2 102 4 3 1 1 2,    Parameters 25 3 4 5 3 0 0 3 (- 1) 0 0,
     Parameters 25 2 0 5 3 0 0 3 (- 1) 0 0,  Parameters 25 2 3 5 3 0 0 3 0 0 0]"

fun IndexConversion :: "bool \<Rightarrow> Parameters \<Rightarrow> bool" where
  "IndexConversion heavy (Parameters tile_size tiles_per_block rank grid_size src_rank
      global_element global_tile rank_tile local_tile local_tile_next tile_element) =
     (tileFromElement heavy global_element tile_size = Inr global_tile \<and>
      tileElementFromElement heavy global_element tile_size = Inr tile_element \<and>
      elementFromTileAndTileElement heavy global_tile tile_element tile_size = Inr global_element \<and>
      rankGlobalTile heavy global_tile tiles_per_block grid_size src_rank = Inr rank_tile \<and>
      localTileFromGlobalTile heavy global_tile tiles_per_block grid_size rank src_rank
        = Inr local_tile \<and>
      nextLocalTileFromGlobalTile heavy global_tile tiles_per_block grid_size rank src_rank
        = Inr local_tile_next \<and>
      (if 0 \<le> local_tile
       then globalTileFromLocalTile heavy local_tile tiles_per_block grid_size rank src_rank
              = Inr global_tile
       else True))"


section \<open>The MPI call wrapper\<close>

text \<open>
  The wrapper of \<^verbatim>\<open>dlaf/sender/transform_mpi.h\<close> that turns a non-blocking MPI call
  into a node of the task graph: \<^verbatim>\<open>MPICallHelper\<close> and the helpers it calls.
\<close>

text \<open>
  The type of an argument of a bridged call as the traits below see it: after
  \<^verbatim>\<open>getReferenceWrapper\<close> has taken it out of a \<^verbatim>\<open>std::reference_wrapper\<close> and
  \<^verbatim>\<open>std::decay_t\<close> has removed references and qualifiers. The kernels pass a
  pipelined communicator, a rank and a tile; \<open>PromiseGuard T\<close> is
  \<^verbatim>\<open>dlaf::common::PromiseGuard<T>\<close> for any \<open>T\<close>.
\<close>

datatype cpp_type = Communicator | Tile | IndexT_MPI | PromiseGuard cpp_type

text \<open>An argument: an object of some type, told from the others by its identity.\<close>

record object =
  obj_type :: cpp_type
  obj_id :: nat

text \<open>\<^verbatim>\<open>IsPromiseGuard\<close> is true for every specialisation of \<^verbatim>\<open>PromiseGuard\<close>;
  \<^verbatim>\<open>IsPromiseGuardCommunicator\<close> is \<^verbatim>\<open>std::is_same\<close> with
  \<^verbatim>\<open>PromiseGuard<Communicator>\<close>.\<close>

definition IsPromiseGuard_v :: "cpp_type \<Rightarrow> bool" where
  "IsPromiseGuard_v T = (case T of PromiseGuard _ \<Rightarrow> True | _ \<Rightarrow> False)"

definition IsPromiseGuardCommunicator_v :: "cpp_type \<Rightarrow> bool" where
  "IsPromiseGuardCommunicator_v T \<longleftrightarrow> T = PromiseGuard Communicator"

text \<open>
  The state of one wrapped call: the argument objects that still hold what they guard
  or own; the request, as the number of \<^verbatim>\<open>MPI_Test\<close> calls that will still find it
  incomplete; and the events so far. \<open>Invoked\<close> and \<open>MPI_Test\<close> record the objects
  holding their resources at that moment.
\<close>

datatype event =
  Invoked "object list" "object set"
  | Destroyed object
  | MPI_Test bool "object set"

record bridge_state =
  holding :: "object set"
  req :: nat
  trace :: "event list"

text \<open>
  Modelled from the spec: the member \<^verbatim>\<open>ref()\<close> of the class \<^verbatim>\<open>PromiseGuard\<close>
  (\<^verbatim>\<open>dlaf/common/pipeline.h\<close>, which is not among the sources). Guards "carry reference
  semantics to the resource": \<^verbatim>\<open>ref()\<close> gives the guarded object.
\<close>

definition PromiseGuard_ref :: "object \<Rightarrow> object" where
  "PromiseGuard_ref t = (case obj_type t of PromiseGuard T \<Rightarrow> t\<lparr>obj_type := T\<rparr> | _ \<Rightarrow> t)"

text \<open>
  Modelled from the spec: the move constructor and the destructor of the class
  \<^verbatim>\<open>PromiseGuard\<close> (\<^verbatim>\<open>dlaf/common/pipeline.h\<close>, which is not among the sources), as
  the statement \<^verbatim>\<open>auto t_local = std::move(t);\<close> and the end of its block use them.
  Guards "release [the resource] automatically when the token's last use completes", and
  "releasing a guard (on destruction or explicit release) is the only way a later queued
  request advances": the move leaves \<open>t\<close> empty, and the resource is released when the
  local guard is destroyed.
\<close>

definition move_and_destroy :: "object \<Rightarrow> bridge_state \<Rightarrow> bridge_state" where
  "move_and_destroy t s = s\<lparr>holding := holding s - {t}, trace := trace s @ [Destroyed t]\<rparr>"

text \<open>\<^verbatim>\<open>unwrapPromiseGuard\<close>: the object inside a guard, or the argument itself.\<close>

definition unwrapPromiseGuard :: "object \<Rightarrow> object" where
  "unwrapPromiseGuard t = (if IsPromiseGuard_v (obj_type t) then PromiseGuard_ref t else t)"

text \<open>\<^verbatim>\<open>consumePromiseGuardCommunicator\<close>: a \<^verbatim>\<open>PromiseGuard<Communicator>\<close> is
  moved into a local that is destroyed at once; nothing is done to any other argument.\<close>

definition consumePromiseGuardCommunicator :: "object \<Rightarrow> bridge_state \<Rightarrow> bridge_state" where
  "consumePromiseGuardCommunicator t s =
     (if IsPromiseGuardCommunicator_v (obj_type t) then move_and_destroy t s else s)"

text \<open>
  The lambda \<^verbatim>\<open>is_request_completed\<close>: it calls \<^verbatim>\<open>MPI_Test\<close> on the request and
  returns \<^verbatim>\<open>flag == 0\<close>, which is true as long as the request is not complete.
\<close>

definition is_request_completed :: "bridge_state \<Rightarrow> bool \<times> bridge_state" where
  "is_request_completed s =
     (case req s of
        0 \<Rightarrow> (False, s\<lparr>trace := trace s @ [MPI_Test True (holding s)]\<rparr>)
      | Suc k \<Rightarrow> (True, s\<lparr>req := k, trace := trace s @ [MPI_Test False (holding s)]\<rparr>))"

text \<open>
  \<^verbatim>\<open>pika::util::yield_while\<close> with that lambda: it yields and tests again as long as the
  lambda returns true. The loop ends because the request completes after \<open>req\<close> tests.
\<close>

function yield_while :: "bridge_state \<Rightarrow> bridge_state" where
  "yield_while s =
     (case is_request_completed s of
        (True, s') \<Rightarrow> yield_while s'
      | (False, s') \<Rightarrow> s')"
  by pat_completeness auto
termination
  by (relation "measure req") (auto simp add: is_request_completed_def split: nat.splits)

declare yield_while.simps [simp del]

text \<open>
  The call operator of \<^verbatim>\<open>MPICallHelper\<close>. The callable \<open>f\<close> is invoked with the
  unwrapped arguments (and the request, which \<open>n\<close> tests will find incomplete); then the
  fold expression consumes the arguments from left to right; then the wrapper polls. Both
  branches of the source (a callable returning void or a value) make these three steps.
\<close>

definition MPICallHelper ::
  "(object list \<Rightarrow> 'r) \<Rightarrow> nat \<Rightarrow> object list \<Rightarrow> bridge_state \<Rightarrow> 'r \<times> bridge_state" where
  "MPICallHelper f n ts s =
     (let args = map unwrapPromiseGuard ts;
          r = f args;
          s1 = s\<lparr>req := n, trace := trace s @ [Invoked args (holding s)]\<rparr>;
          s2 = fold consumePromiseGuardCommunicator ts s1;
          s3 = yield_while s2
      in (r, s3))"

text \<open>The communicator guards among the arguments, and the events of one call.\<close>

definition guards :: "object list \<Rightarrow> object list" where
  "guards ts = filter (\<lambda>t. obj_type t = PromiseGuard Communicator) ts"

definition events_of_call ::
  "(object list \<Rightarrow> 'r) \<Rightarrow> nat \<Rightarrow> object list \<Rightarrow> bridge_state \<Rightarrow> event list" where
  "events_of_call f n ts s = drop (length (trace s)) (trace (snd (MPICallHelper f n ts s)))"


section \<open>Broadcast kernels\<close>

text \<open>The kernels of \<^verbatim>\<open>src/communication/kernels/broadcast.cpp\<close>.\<close>

text \<open>
  The device of a tile, and the template arguments of \<^verbatim>\<open>withTemporaryTile\<close> that the
  kernels pass.
\<close>

datatype Device = CPU | GPU

datatype CopyToDestination = CopyToDestination_Yes | CopyToDestination_No

datatype CopyFromDestination = CopyFromDestination_Yes | CopyFromDestination_No

datatype RequireContiguous = RequireContiguous_Yes | RequireContiguous_No

text \<open>A tile: where its memory is and what it holds.\<close>

record 'a tile =
  device :: Device
  elements :: "'a list"

text \<open>
  What a kernel does, in order: copies between the tile and its temporary, with the
  elements copied, and the bridged calls, with the elements of the buffer handed to MPI
  (for a receive, the buffer before the call, and the root rank).
\<close>

datatype 'a comm_event =
  Copied_to_temporary "'a list"
  | Bridged_send "'a list"
  | Bridged_recv int "'a list"
  | Copied_from_temporary "'a list"

type_synonym 'a comm_function = "'a tile \<Rightarrow> 'a tile \<times> 'a comm_event list"

text \<open>
  Modelled from the spec: \<^verbatim>\<open>withTemporaryTile\<close> of
  \<^verbatim>\<open>dlaf/sender/with_temporary_tile.h\<close>, which is not among the sources. The tile is
  staged "into a communication-capable buffer only if the compute device cannot itself be
  addressed by the network layer"; the temporary is filled from the tile first when
  \<open>copy_to\<close> says so, it is "cop[ied] back into the destination tile if staging was
  used" when \<open>copy_from\<close> says so, and without staging the function runs on the tile
  itself. \<open>scratch\<close> is what a fresh temporary holds. The spec says nothing about
  contiguous memory, and both kernels pass \<^verbatim>\<open>RequireContiguous::No\<close>: the argument is
  kept and staging is decided by the device alone.
\<close>

definition withTemporaryTile ::
  "Device \<Rightarrow> CopyToDestination \<Rightarrow> CopyFromDestination \<Rightarrow> RequireContiguous \<Rightarrow>
   'a list \<Rightarrow> 'a tile \<Rightarrow> 'a comm_function \<Rightarrow> 'a tile \<times> 'a comm_event list" where
  "withTemporaryTile destination copy_to copy_from require_contiguous scratch tile f =
     (if device tile = destination then f tile
      else
        let temp = \<lparr>device = destination, elements = scratch\<rparr>;
            (temp_in, copy_in) =
              (if copy_to = CopyToDestination_Yes
               then (temp\<lparr>elements := elements tile\<rparr>, [Copied_to_temporary (elements tile)])
               else (temp, []));
            (temp_out, comm) = f temp_in;
            (tile_out, copy_out) =
              (if copy_from = CopyFromDestination_Yes
               then (tile\<lparr>elements := elements temp_out\<rparr>,
                     [Copied_from_temporary (elements temp_out)])
               else (tile, []))
        in (tile_out, copy_in @ comm @ copy_out))"

text \<open>
  Modelled from the spec: the callable \<^verbatim>\<open>sendBcast_o\<close>, which is not among the
  sources. The "bridged send" hands the buffer to MPI, which reads it.
\<close>

definition sendBcast_o :: "'a comm_function" where
  "sendBcast_o tile = (tile, [Bridged_send (elements tile)])"

text \<open>
  Modelled from the spec: the callable \<^verbatim>\<open>recvBcast_o\<close>, which is not among the
  sources. The "bridged receive from the given root rank" hands the buffer to MPI; what
  the buffer held "will be overwritten" by the elements that arrive, \<open>incoming\<close>.
\<close>

definition recvBcast_o :: "int \<Rightarrow> 'a list \<Rightarrow> 'a comm_function" where
  "recvBcast_o root_rank incoming tile =
     (tile\<lparr>elements := incoming\<rparr>, [Bridged_recv root_rank (elements tile)])"

text \<open>
  The lambdas \<^verbatim>\<open>send\<close> and \<^verbatim>\<open>recv\<close> of the two kernels: the callable, bridged by
  \<^verbatim>\<open>transformMPI\<close> (the wrapper of the previous section), on the communicator, the
  root rank for a receive, and the communication tile. The communicator plays no part in
  what is copied and is left out.
\<close>

definition send :: "'a comm_function" where
  "send tile_comm = sendBcast_o tile_comm"

definition recv :: "int \<Rightarrow> 'a list \<Rightarrow> 'a comm_function" where
  "recv root_rank incoming tile_comm = recvBcast_o root_rank incoming tile_comm"

text \<open>
  \<^verbatim>\<open>scheduleSendBcast\<close> and \<^verbatim>\<open>scheduleRecvBcast\<close>, with the template arguments of
  the source. \<^verbatim>\<open>CommunicationDevice_v\<close> (\<^verbatim>\<open>dlaf/communication/rdma.h\<close>, not among the
  sources) is a parameter.
\<close>

definition scheduleSendBcast ::
  "(Device \<Rightarrow> Device) \<Rightarrow> 'a list \<Rightarrow> 'a tile \<Rightarrow> 'a tile \<times> 'a comm_event list" where
  "scheduleSendBcast CommunicationDevice_v scratch tile =
     (let in_device_type = device tile;
          comm_device_type = CommunicationDevice_v in_device_type
      in withTemporaryTile comm_device_type CopyToDestination_Yes CopyFromDestination_No
           RequireContiguous_No scratch tile send)"

definition scheduleRecvBcast ::
  "(Device \<Rightarrow> Device) \<Rightarrow> 'a list \<Rightarrow> 'a list \<Rightarrow> int \<Rightarrow> 'a tile \<Rightarrow>
   'a tile \<times> 'a comm_event list" where
  "scheduleRecvBcast CommunicationDevice_v scratch incoming root_rank tile =
     (let in_device_type = device tile;
          comm_device_type = CommunicationDevice_v in_device_type
      in withTemporaryTile comm_device_type CopyToDestination_No CopyFromDestination_Yes
           RequireContiguous_No scratch tile (recv root_rank incoming))"


section \<open>Evaluation of the index functions on valid arguments\<close>

lemma and_then_Inr: "and_then (Inr v) f = f v"
  by (simp add: and_then_def)

lemma and_then_Inl: "and_then (Inl e) f = Inl e"
  by (simp add: and_then_def)

lemma DLAF_ASSERT_HEAVY_holds: "expr \<Longrightarrow> DLAF_ASSERT_HEAVY heavy expr txt k = k"
  by (simp add: DLAF_ASSERT_HEAVY_def)

lemma DLAF_ASSERT_HEAVY_off: "DLAF_ASSERT_HEAVY False expr txt k = k"
  by (simp add: DLAF_ASSERT_HEAVY_def)

lemma DLAF_ASSERT_HEAVY_fails:
  "\<not> expr \<Longrightarrow> DLAF_ASSERT_HEAVY True expr txt k = Inl (PreconditionError txt)"
  by (simp add: DLAF_ASSERT_HEAVY_def)

lemma cpp_div_nonneg: "0 \<le> a \<Longrightarrow> 0 < b \<Longrightarrow> cpp_div a b = Inr (a div b)"
  by (cases "a = 0") (simp_all add: cpp_div_def)

lemma cpp_mod_nonneg: "0 \<le> a \<Longrightarrow> 0 < b \<Longrightarrow> cpp_mod a b = Inr (a mod b)"
  by (cases "a = 0") (simp_all add: cpp_mod_def)

lemma tileFromElement_eval:
  "0 \<le> e \<Longrightarrow> 0 < b \<Longrightarrow> tileFromElement heavy e b = Inr (e div b)"
  by (simp add: tileFromElement_def DLAF_ASSERT_HEAVY_holds cpp_div_nonneg)

lemma tileElementFromElement_eval:
  "0 \<le> e \<Longrightarrow> 0 < b \<Longrightarrow> tileElementFromElement heavy e b = Inr (e mod b)"
  by (simp add: tileElementFromElement_def DLAF_ASSERT_HEAVY_holds cpp_mod_nonneg)

lemma elementFromTileAndTileElement_eval:
  "0 \<le> t \<Longrightarrow> 0 \<le> o' \<Longrightarrow> o' < b \<Longrightarrow>
   elementFromTileAndTileElement heavy t o' b = Inr (t * b + o')"
  by (simp add: elementFromTileAndTileElement_def DLAF_ASSERT_HEAVY_holds)

lemma rankGlobalTile_eval:
  "0 \<le> g \<Longrightarrow> 0 < tpb \<Longrightarrow> 0 < gs \<Longrightarrow> 0 \<le> src \<Longrightarrow> src < gs \<Longrightarrow>
   rankGlobalTile heavy g tpb gs src = Inr ((g div tpb + src) mod gs)"
  by (simp add: rankGlobalTile_def DLAF_ASSERT_HEAVY_holds cpp_div_nonneg cpp_mod_nonneg
      and_then_Inr pos_imp_zdiv_nonneg_iff)

lemma localTileFromGlobalTile_eval:
  "0 \<le> g \<Longrightarrow> 0 < tpb \<Longrightarrow> 0 < gs \<Longrightarrow> 0 \<le> rank \<Longrightarrow> rank < gs \<Longrightarrow> 0 \<le> src \<Longrightarrow> src < gs \<Longrightarrow>
   localTileFromGlobalTile heavy g tpb gs rank src =
     Inr (if rank = (g div tpb + src) mod gs then g div tpb div gs * tpb + g mod tpb else - 1)"
  by (simp add: localTileFromGlobalTile_def DLAF_ASSERT_HEAVY_holds rankGlobalTile_eval
      cpp_div_nonneg cpp_mod_nonneg and_then_Inr pos_imp_zdiv_nonneg_iff)

lemma nextLocalTileFromGlobalTile_eval:
  "0 \<le> g \<Longrightarrow> 0 < tpb \<Longrightarrow> 0 < gs \<Longrightarrow> 0 \<le> rank \<Longrightarrow> rank < gs \<Longrightarrow> 0 \<le> src \<Longrightarrow> src < gs \<Longrightarrow>
   nextLocalTileFromGlobalTile heavy g tpb gs rank src =
     Inr (if (rank + gs - src) mod gs = g div tpb mod gs then g div tpb div gs * tpb + g mod tpb
          else if (rank + gs - src) mod gs < g div tpb mod gs then (g div tpb div gs + 1) * tpb
          else g div tpb div gs * tpb)"
  by (simp add: nextLocalTileFromGlobalTile_def DLAF_ASSERT_HEAVY_holds
      cpp_div_nonneg cpp_mod_nonneg and_then_Inr pos_imp_zdiv_nonneg_iff)

lemma globalTileFromLocalTile_eval:
  "0 \<le> l \<Longrightarrow> 0 < tpb \<Longrightarrow> 0 < gs \<Longrightarrow> 0 \<le> rank \<Longrightarrow> rank < gs \<Longrightarrow> 0 \<le> src \<Longrightarrow> src < gs \<Longrightarrow>
   globalTileFromLocalTile heavy l tpb gs rank src =
     Inr ((gs * (l div tpb) + (rank + gs - src) mod gs) * tpb + l mod tpb)"
  by (simp add: globalTileFromLocalTile_def DLAF_ASSERT_HEAVY_holds
      cpp_div_nonneg cpp_mod_nonneg and_then_Inr pos_imp_zdiv_nonneg_iff)

text \<open>The embedding passes the unit test of the repository.\<close>

lemma IndexConversion_passes: "list_all (IndexConversion heavy) tests"
  by (simp add: tests_def tileFromElement_eval tileElementFromElement_eval
      elementFromTileAndTileElement_eval rankGlobalTile_eval localTileFromGlobalTile_eval
      nextLocalTileFromGlobalTile_eval globalTileFromLocalTile_eval)


section \<open>Arithmetic of blocks and ranks\<close>













section \<open>Assertions\<close>

lemma tileFromElement_checks:
  "\<not> pre_element e b \<Longrightarrow> \<exists>txt. tileFromElement True e b = Inl (PreconditionError txt)"
  by (auto simp add: pre_element_def tileFromElement_def DLAF_ASSERT_HEAVY_def)

lemma tileElementFromElement_checks:
  "\<not> pre_element e b \<Longrightarrow> \<exists>txt. tileElementFromElement True e b = Inl (PreconditionError txt)"
  by (auto simp add: pre_element_def tileElementFromElement_def DLAF_ASSERT_HEAVY_def)

lemma elementFromTileAndTileElement_checks:
  "\<not> pre_tile_element t te b \<Longrightarrow>
   \<exists>txt. elementFromTileAndTileElement True t te b = Inl (PreconditionError txt)"
  by (auto simp add: pre_tile_element_def elementFromTileAndTileElement_def DLAF_ASSERT_HEAVY_def)

lemma rankGlobalTile_checks:
  "\<not> pre_rank g tpb gs src \<Longrightarrow>
   \<exists>txt. rankGlobalTile True g tpb gs src = Inl (PreconditionError txt)"
  by (auto simp add: pre_rank_def rankGlobalTile_def DLAF_ASSERT_HEAVY_def)

lemma localTileFromGlobalTile_checks:
  "\<not> pre_tile g tpb gs rank src \<Longrightarrow>
   \<exists>txt. localTileFromGlobalTile True g tpb gs rank src = Inl (PreconditionError txt)"
  by (auto simp add: pre_tile_def localTileFromGlobalTile_def DLAF_ASSERT_HEAVY_def)

lemma nextLocalTileFromGlobalTile_checks:
  "\<not> pre_tile g tpb gs rank src \<Longrightarrow>
   \<exists>txt. nextLocalTileFromGlobalTile True g tpb gs rank src = Inl (PreconditionError txt)"
  by (auto simp add: pre_tile_def nextLocalTileFromGlobalTile_def DLAF_ASSERT_HEAVY_def)

lemma globalTileFromLocalTile_checks:
  "\<not> pre_tile l tpb gs rank src \<Longrightarrow>
   \<exists>txt. globalTileFromLocalTile True l tpb gs rank src = Inl (PreconditionError txt)"
  by (auto simp add: pre_tile_def globalTileFromLocalTile_def DLAF_ASSERT_HEAVY_def)

lemma element_functions_return:
  "pre_element e b \<Longrightarrow> \<exists>v. tileFromElement heavy e b = Inr v"
  "pre_element e b \<Longrightarrow> \<exists>v. tileElementFromElement heavy e b = Inr v"
  "pre_tile_element t te b \<Longrightarrow> \<exists>v. elementFromTileAndTileElement heavy t te b = Inr v"
  by (simp_all add: pre_element_def pre_tile_element_def tileFromElement_eval
      tileElementFromElement_eval elementFromTileAndTileElement_eval)

lemma tile_functions_return:
  "pre_rank g tpb gs src \<Longrightarrow> \<exists>v. rankGlobalTile heavy g tpb gs src = Inr v"
  "pre_tile g tpb gs rank src \<Longrightarrow> \<exists>v. localTileFromGlobalTile heavy g tpb gs rank src = Inr v"
  "pre_tile g tpb gs rank src \<Longrightarrow> \<exists>v. nextLocalTileFromGlobalTile heavy g tpb gs rank src = Inr v"
  "pre_tile g tpb gs rank src \<Longrightarrow> \<exists>v. globalTileFromLocalTile heavy g tpb gs rank src = Inr v"
  by (simp_all add: pre_rank_def pre_tile_def rankGlobalTile_eval localTileFromGlobalTile_eval
      nextLocalTileFromGlobalTile_eval globalTileFromLocalTile_eval)


section \<open>Elements and tiles\<close>

text \<open>
  Claim C4. For every element index \<open>e \<ge> 0\<close> and block size \<open>b > 0\<close>,
  \<^verbatim>\<open>tileFromElement\<close> returns \<open>e / b\<close>, \<^verbatim>\<open>tileElementFromElement\<close> returns
  \<open>e % b\<close>, and \<^verbatim>\<open>elementFromTileAndTileElement\<close> applied to the two results
  (its own assertions included) returns \<open>e\<close> again, with or without heavy assertions.
\<close>

theorem element_tile_round_trip:
  assumes "0 \<le> e" "0 < b"
  shows "tileFromElement heavy e b = Inr (e div b) \<and>
         tileElementFromElement heavy e b = Inr (e mod b) \<and>
         and_then (tileFromElement heavy e b) (\<lambda>tile.
           and_then (tileElementFromElement heavy e b) (\<lambda>tile_element.
             elementFromTileAndTileElement heavy tile tile_element b)) = Inr e"
  using assms
  by (simp add: tileFromElement_eval tileElementFromElement_eval and_then_Inr
      elementFromTileAndTileElement_eval pos_imp_zdiv_nonneg_iff)

theorem element_tile_round_trip_witness:
  "tileFromElement True 652 25 = Inr 26 \<and> tileElementFromElement True 652 25 = Inr 2 \<and>
   and_then (tileFromElement True 652 25) (\<lambda>tile.
     and_then (tileElementFromElement True 652 25) (\<lambda>tile_element.
       elementFromTileAndTileElement True tile tile_element 25)) = Inr 652"
  using element_tile_round_trip [of 652 25 True]
  by (simp add: and_then_Inr elementFromTileAndTileElement_eval)


section \<open>The owner of a tile and its local index\<close>



text \<open>
  Claim C6. For every valid input, \<^verbatim>\<open>localTileFromGlobalTile\<close> returns the local tile
  index \<open>(global_tile / tiles_per_block / grid_size) * tiles_per_block +
  global_tile % tiles_per_block\<close>, which is not negative, when \<open>rank\<close> is the rank
  that \<^verbatim>\<open>rankGlobalTile\<close> returns, and the sentinel -1 in every other case.
\<close>

theorem localTileFromGlobalTile_owner_or_sentinel:
  assumes "0 \<le> global_tile" "0 < tiles_per_block" "0 < grid_size"
    "0 \<le> rank" "rank < grid_size" "0 \<le> src_rank" "src_rank < grid_size"
  shows "localTileFromGlobalTile heavy global_tile tiles_per_block grid_size rank src_rank =
           (if rankGlobalTile heavy global_tile tiles_per_block grid_size src_rank = Inr rank
            then Inr (global_tile div tiles_per_block div grid_size * tiles_per_block
                      + global_tile mod tiles_per_block)
            else Inr (- 1)) \<and>
         0 \<le> global_tile div tiles_per_block div grid_size * tiles_per_block
               + global_tile mod tiles_per_block"
proof -
  have "0 \<le> global_tile div tiles_per_block div grid_size"
    using assms by (simp add: pos_imp_zdiv_nonneg_iff)
  then have "0 \<le> global_tile div tiles_per_block div grid_size * tiles_per_block"
    using assms(2) by simp
  moreover have "0 \<le> global_tile mod tiles_per_block" using assms(2) by simp
  ultimately have "0 \<le> global_tile div tiles_per_block div grid_size * tiles_per_block
               + global_tile mod tiles_per_block" by linarith
  moreover have "localTileFromGlobalTile heavy global_tile tiles_per_block grid_size rank src_rank =
           (if rankGlobalTile heavy global_tile tiles_per_block grid_size src_rank = Inr rank
            then Inr (global_tile div tiles_per_block div grid_size * tiles_per_block
                      + global_tile mod tiles_per_block)
            else Inr (- 1))"
    using assms by (auto simp add: localTileFromGlobalTile_eval rankGlobalTile_eval)
  ultimately show ?thesis by simp
qed

theorem localTileFromGlobalTile_owner_or_sentinel_witness:
  "localTileFromGlobalTile True 26 4 5 1 0 = Inr 6 \<and>
   localTileFromGlobalTile True 26 4 5 2 0 = Inr (- 1)"
  using localTileFromGlobalTile_owner_or_sentinel [of 26 4 5 1 0 True]
    localTileFromGlobalTile_owner_or_sentinel [of 26 4 5 2 0 True]
  by (simp add: rankGlobalTile_eval)

text \<open>
  Claim C7. The example of the unit test: with \<open>tile_size = 10\<close>,
  \<open>tiles_per_block = 1\<close>, \<open>grid_size = 5\<close>, \<open>src_rank = 0\<close> and global element
  124, the global tile is 12 and the element within the tile is 4; rank 2 owns tile 12;
  for rank 1 the tile is not local (-1) and the next local tile is 3.
\<close>

theorem index_conversion_example:
  "tileFromElement heavy 124 10 = Inr 12 \<and>
   tileElementFromElement heavy 124 10 = Inr 4 \<and>
   rankGlobalTile heavy 12 1 5 0 = Inr 2 \<and>
   localTileFromGlobalTile heavy 12 1 5 1 0 = Inr (- 1) \<and>
   nextLocalTileFromGlobalTile heavy 12 1 5 1 0 = Inr 3"
  by (simp add: tileFromElement_eval tileElementFromElement_eval rankGlobalTile_eval
      localTileFromGlobalTile_eval nextLocalTileFromGlobalTile_eval)


section \<open>Local and global tile indices\<close>






section \<open>Preconditions\<close>

text \<open>
  Claim C9. Every index function asserts its documented preconditions. With heavy
  assertions (a debug build) a call that violates them stops with a precondition error,
  never in a computation (no division is reached); under the preconditions the call
  returns a value, whether or not the assertions are compiled in.
\<close>

theorem preconditions_checked:
  "(\<not> pre_element e b \<longrightarrow>
      (\<exists>txt. tileFromElement True e b = Inl (PreconditionError txt)) \<and>
      (\<exists>txt. tileElementFromElement True e b = Inl (PreconditionError txt))) \<and>
   (pre_element e b \<longrightarrow>
      (\<exists>v. tileFromElement heavy e b = Inr v) \<and>
      (\<exists>v. tileElementFromElement heavy e b = Inr v)) \<and>
   (\<not> pre_tile_element t te b \<longrightarrow>
      (\<exists>txt. elementFromTileAndTileElement True t te b = Inl (PreconditionError txt))) \<and>
   (pre_tile_element t te b \<longrightarrow>
      (\<exists>v. elementFromTileAndTileElement heavy t te b = Inr v)) \<and>
   (\<not> pre_rank g tpb gs src \<longrightarrow>
      (\<exists>txt. rankGlobalTile True g tpb gs src = Inl (PreconditionError txt))) \<and>
   (pre_rank g tpb gs src \<longrightarrow>
      (\<exists>v. rankGlobalTile heavy g tpb gs src = Inr v)) \<and>
   (\<not> pre_tile g tpb gs rank src \<longrightarrow>
      (\<exists>txt. localTileFromGlobalTile True g tpb gs rank src = Inl (PreconditionError txt)) \<and>
      (\<exists>txt. nextLocalTileFromGlobalTile True g tpb gs rank src = Inl (PreconditionError txt)) \<and>
      (\<exists>txt. globalTileFromLocalTile True g tpb gs rank src = Inl (PreconditionError txt))) \<and>
   (pre_tile g tpb gs rank src \<longrightarrow>
      (\<exists>v. localTileFromGlobalTile heavy g tpb gs rank src = Inr v) \<and>
      (\<exists>v. nextLocalTileFromGlobalTile heavy g tpb gs rank src = Inr v) \<and>
      (\<exists>v. globalTileFromLocalTile heavy g tpb gs rank src = Inr v))"
  by (intro conjI impI tileFromElement_checks tileElementFromElement_checks
      elementFromTileAndTileElement_checks rankGlobalTile_checks localTileFromGlobalTile_checks
      nextLocalTileFromGlobalTile_checks globalTileFromLocalTile_checks
      element_functions_return tile_functions_return)

theorem preconditions_checked_witness:
  "pre_element 124 10 \<and> pre_tile_element 12 4 10 \<and> pre_rank 12 1 5 0 \<and> pre_tile 12 1 5 1 0 \<and>
   tileFromElement False 124 10 = Inr 12 \<and>
   tileElementFromElement False 124 10 = Inr 4 \<and>
   elementFromTileAndTileElement False 12 4 10 = Inr 124 \<and>
   rankGlobalTile False 12 1 5 0 = Inr 2 \<and>
   localTileFromGlobalTile False 12 1 5 1 0 = Inr (- 1) \<and>
   nextLocalTileFromGlobalTile False 12 1 5 1 0 = Inr 3 \<and>
   globalTileFromLocalTile False 12 1 5 1 0 = Inr 61 \<and>
   \<not> pre_element 124 0 \<and> \<not> pre_tile_element 12 10 10 \<and> \<not> pre_rank 12 1 5 5 \<and>
   \<not> pre_tile 12 0 5 1 0 \<and>
   tileFromElement True 124 0 = Inl (PreconditionError ''0 < block_size'') \<and>
   tileElementFromElement True 124 0 = Inl (PreconditionError ''0 < block_size'') \<and>
   elementFromTileAndTileElement True 12 10 10 =
     Inl (PreconditionError ''0 <= tile_element && tile_element < block_size'') \<and>
   rankGlobalTile True 12 1 5 5 =
     Inl (PreconditionError ''0 <= src_rank && src_rank < grid_size'') \<and>
   localTileFromGlobalTile True 12 0 5 1 0 = Inl (PreconditionError ''0 < tiles_per_block'') \<and>
   nextLocalTileFromGlobalTile True 12 0 5 1 0 = Inl (PreconditionError ''0 < tiles_per_block'') \<and>
   globalTileFromLocalTile True 12 0 5 1 0 = Inl (PreconditionError ''0 < tiles_per_block'')"
  using preconditions_checked [where e = 124 and b = 10 and heavy = False and t = 12 and te = 4
      and g = 12 and tpb = 1 and gs = 5 and src = 0 and rank = 1]
    preconditions_checked [where e = 124 and b = 0 and t = 12 and te = 10
      and g = 12 and tpb = 1 and gs = 5 and src = 5 and rank = 1]
    preconditions_checked [where e = 124 and b = 10 and t = 12 and te = 10
      and g = 12 and tpb = 0 and gs = 5 and src = 0 and rank = 1]
  by (simp add: pre_element_def pre_tile_element_def pre_rank_def pre_tile_def
      tileFromElement_def tileElementFromElement_def elementFromTileAndTileElement_def
      rankGlobalTile_def localTileFromGlobalTile_def nextLocalTileFromGlobalTile_def
      globalTileFromLocalTile_def DLAF_ASSERT_HEAVY_def cpp_div_def cpp_mod_def and_then_def)


section \<open>Guards in the MPI call wrapper\<close>

lemma yield_while_closed:
  "yield_while s = s\<lparr>req := 0,
     trace := trace s @ map (\<lambda>flag. MPI_Test flag (holding s)) (replicate (req s) False @ [True])\<rparr>"
proof (induction "req s" arbitrary: s)
  case 0
  then show ?case
    by (subst yield_while.simps) (simp add: is_request_completed_def)
next
  case (Suc k)
  from Suc(2) have r: "req s = Suc k" by simp
  have "yield_while s = yield_while (s\<lparr>req := k, trace := trace s @ [MPI_Test False (holding s)]\<rparr>)"
    by (subst yield_while.simps) (simp add: is_request_completed_def r)
  also have "\<dots> = s\<lparr>req := 0,
     trace := trace s @ map (\<lambda>flag. MPI_Test flag (holding s)) (replicate (req s) False @ [True])\<rparr>"
    using Suc(1) [of "s\<lparr>req := k, trace := trace s @ [MPI_Test False (holding s)]\<rparr>"]
    by (simp add: r)
  finally show ?case .
qed

lemma consume_guard:
  "obj_type t = PromiseGuard Communicator \<Longrightarrow>
   consumePromiseGuardCommunicator t s =
     s\<lparr>holding := holding s - {t}, trace := trace s @ [Destroyed t]\<rparr>"
  by (simp add: consumePromiseGuardCommunicator_def IsPromiseGuardCommunicator_v_def
      move_and_destroy_def)

lemma consume_other:
  "obj_type t \<noteq> PromiseGuard Communicator \<Longrightarrow> consumePromiseGuardCommunicator t s = s"
  by (simp add: consumePromiseGuardCommunicator_def IsPromiseGuardCommunicator_v_def)

lemma diff_insert_step: "A - {a} - B = A - insert a B"
  by blast

lemma fold_consume:
  "fold consumePromiseGuardCommunicator ts s =
     s\<lparr>holding := holding s - set (guards ts),
       trace := trace s @ map Destroyed (guards ts)\<rparr>"
proof (induction ts arbitrary: s)
  case Nil
  then show ?case by (simp add: guards_def)
next
  case (Cons t ts)
  show ?case
  proof (cases "obj_type t = PromiseGuard Communicator")
    case True
    then show ?thesis
      by (simp add: Cons.IH consume_guard guards_def diff_insert_step)
  next
    case False
    then show ?thesis
      by (simp add: Cons.IH consume_other guards_def)
  qed
qed

lemma MPICallHelper_closed:
  "MPICallHelper f n ts s =
     (f (map unwrapPromiseGuard ts),
      s\<lparr>holding := holding s - set (guards ts),
        req := 0,
        trace := trace s @ Invoked (map unwrapPromiseGuard ts) (holding s)
          # map Destroyed (guards ts)
          @ map (\<lambda>flag. MPI_Test flag (holding s - set (guards ts)))
              (replicate n False @ [True])\<rparr>)"
  by (simp add: MPICallHelper_def Let_def yield_while_closed fold_consume)

lemma events_of_call_closed:
  "events_of_call f n ts s =
     Invoked (map unwrapPromiseGuard ts) (holding s)
       # map Destroyed (guards ts)
       @ map (\<lambda>flag. MPI_Test flag (holding s - set (guards ts))) (replicate n False @ [True])"
  by (simp add: events_of_call_def MPICallHelper_closed)

text \<open>
  Claim C3. In the MPI call wrapper, a pipelined communicator guard
  (\<^verbatim>\<open>PromiseGuard<Communicator>\<close>) passed as argument is destroyed right after the
  wrapped MPI call is invoked and before the wrapper polls the request: the events of a
  call are the invocation, then the destruction of each communicator guard, then the
  tests of the request. No test, the completing one included, finds such a guard still
  holding the communicator, and it does not hold it when the wrapper returns.
\<close>

theorem guard_destroyed_before_polling:
  "events_of_call f n ts s =
     Invoked (map unwrapPromiseGuard ts) (holding s)
       # map Destroyed (guards ts)
       @ map (\<lambda>flag. MPI_Test flag (holding s - set (guards ts))) (replicate n False @ [True])
   \<and> (\<forall>t \<in> set ts. obj_type t = PromiseGuard Communicator \<longrightarrow>
         Destroyed t \<in> set (events_of_call f n ts s) \<and>
         (\<forall>flag H. MPI_Test flag H \<in> set (events_of_call f n ts s) \<longrightarrow> t \<notin> H) \<and>
         t \<notin> holding (snd (MPICallHelper f n ts s)))"
proof -
  have "\<forall>t \<in> set ts. obj_type t = PromiseGuard Communicator \<longrightarrow>
         Destroyed t \<in> set (events_of_call f n ts s) \<and>
         (\<forall>flag H. MPI_Test flag H \<in> set (events_of_call f n ts s) \<longrightarrow> t \<notin> H) \<and>
         t \<notin> holding (snd (MPICallHelper f n ts s))"
    by (auto simp add: events_of_call_closed MPICallHelper_closed guards_def)
  then show ?thesis by (simp only: events_of_call_closed simp_thms)
qed

theorem guard_destroyed_before_polling_witness:
  "events_of_call (\<lambda>args. ()) 2
     [\<lparr>obj_type = PromiseGuard Communicator, obj_id = 1\<rparr>,
      \<lparr>obj_type = IndexT_MPI, obj_id = 2\<rparr>, \<lparr>obj_type = Tile, obj_id = 3\<rparr>]
     \<lparr>holding = {\<lparr>obj_type = PromiseGuard Communicator, obj_id = 1\<rparr>,
        \<lparr>obj_type = IndexT_MPI, obj_id = 2\<rparr>, \<lparr>obj_type = Tile, obj_id = 3\<rparr>},
       req = 0, trace = []\<rparr> =
   [Invoked [\<lparr>obj_type = Communicator, obj_id = 1\<rparr>,
       \<lparr>obj_type = IndexT_MPI, obj_id = 2\<rparr>, \<lparr>obj_type = Tile, obj_id = 3\<rparr>]
      {\<lparr>obj_type = PromiseGuard Communicator, obj_id = 1\<rparr>,
       \<lparr>obj_type = IndexT_MPI, obj_id = 2\<rparr>, \<lparr>obj_type = Tile, obj_id = 3\<rparr>},
    Destroyed \<lparr>obj_type = PromiseGuard Communicator, obj_id = 1\<rparr>,
    MPI_Test False {\<lparr>obj_type = IndexT_MPI, obj_id = 2\<rparr>, \<lparr>obj_type = Tile, obj_id = 3\<rparr>},
    MPI_Test False {\<lparr>obj_type = IndexT_MPI, obj_id = 2\<rparr>, \<lparr>obj_type = Tile, obj_id = 3\<rparr>},
    MPI_Test True {\<lparr>obj_type = IndexT_MPI, obj_id = 2\<rparr>, \<lparr>obj_type = Tile, obj_id = 3\<rparr>}]"
  using guard_destroyed_before_polling [of "\<lambda>args. ()" 2
     "[\<lparr>obj_type = PromiseGuard Communicator, obj_id = 1\<rparr>,
      \<lparr>obj_type = IndexT_MPI, obj_id = 2\<rparr>, \<lparr>obj_type = Tile, obj_id = 3\<rparr>]"
     "\<lparr>holding = {\<lparr>obj_type = PromiseGuard Communicator, obj_id = 1\<rparr>,
        \<lparr>obj_type = IndexT_MPI, obj_id = 2\<rparr>, \<lparr>obj_type = Tile, obj_id = 3\<rparr>},
       req = 0, trace = []\<rparr>"]
  by (simp add: guards_def unwrapPromiseGuard_def IsPromiseGuard_v_def PromiseGuard_ref_def
      numeral_2_eq_2 insert_Diff_if)

text \<open>
  Claim C10. \<^verbatim>\<open>consumePromiseGuardCommunicator\<close> destroys its argument only when its
  type is exactly \<^verbatim>\<open>PromiseGuard<Communicator>\<close>; an argument of any other type (a
  guard of a tile, a plain communicator) is left as it is. So after a wrapped call exactly
  the communicator guards have been released, and every other argument that held a
  resource holds it at every test of the request, the completing one included, and when
  the wrapper returns.
\<close>

theorem only_communicator_guard_consumed:
  "(obj_type t \<noteq> PromiseGuard Communicator \<longrightarrow> consumePromiseGuardCommunicator t s = s) \<and>
   (obj_type t = PromiseGuard Communicator \<longrightarrow>
      holding (consumePromiseGuardCommunicator t s) = holding s - {t}) \<and>
   holding (snd (MPICallHelper f n ts s)) = holding s - set (guards ts) \<and>
   (\<forall>x \<in> set ts. obj_type x \<noteq> PromiseGuard Communicator \<and> x \<in> holding s \<longrightarrow>
      Destroyed x \<notin> set (events_of_call f n ts s) \<and>
      (\<forall>flag H. MPI_Test flag H \<in> set (events_of_call f n ts s) \<longrightarrow> x \<in> H) \<and>
      x \<in> holding (snd (MPICallHelper f n ts s)))"
proof -
  have a: "obj_type t \<noteq> PromiseGuard Communicator \<longrightarrow> consumePromiseGuardCommunicator t s = s"
    by (simp add: consume_other)
  have b: "obj_type t = PromiseGuard Communicator \<longrightarrow>
      holding (consumePromiseGuardCommunicator t s) = holding s - {t}"
    by (simp add: consume_guard)
  have c: "holding (snd (MPICallHelper f n ts s)) = holding s - set (guards ts)"
    by (simp add: MPICallHelper_closed)
  have d: "\<forall>x \<in> set ts. obj_type x \<noteq> PromiseGuard Communicator \<and> x \<in> holding s \<longrightarrow>
      Destroyed x \<notin> set (events_of_call f n ts s) \<and>
      (\<forall>flag H. MPI_Test flag H \<in> set (events_of_call f n ts s) \<longrightarrow> x \<in> H) \<and>
      x \<in> holding (snd (MPICallHelper f n ts s))"
    by (auto simp add: events_of_call_closed MPICallHelper_closed guards_def)
  from a b c d show ?thesis by blast
qed

theorem only_communicator_guard_consumed_witness:
  "consumePromiseGuardCommunicator \<lparr>obj_type = PromiseGuard Tile, obj_id = 3\<rparr>
     \<lparr>holding = {\<lparr>obj_type = PromiseGuard Communicator, obj_id = 1\<rparr>,
        \<lparr>obj_type = PromiseGuard Tile, obj_id = 3\<rparr>}, req = 0, trace = []\<rparr> =
     \<lparr>holding = {\<lparr>obj_type = PromiseGuard Communicator, obj_id = 1\<rparr>,
        \<lparr>obj_type = PromiseGuard Tile, obj_id = 3\<rparr>}, req = 0, trace = []\<rparr> \<and>
   holding (consumePromiseGuardCommunicator \<lparr>obj_type = PromiseGuard Communicator, obj_id = 1\<rparr>
     \<lparr>holding = {\<lparr>obj_type = PromiseGuard Communicator, obj_id = 1\<rparr>,
        \<lparr>obj_type = PromiseGuard Tile, obj_id = 3\<rparr>}, req = 0, trace = []\<rparr>) =
     {\<lparr>obj_type = PromiseGuard Tile, obj_id = 3\<rparr>} \<and>
   holding (snd (MPICallHelper (\<lambda>args. ()) 1
     [\<lparr>obj_type = PromiseGuard Communicator, obj_id = 1\<rparr>,
      \<lparr>obj_type = PromiseGuard Tile, obj_id = 3\<rparr>]
     \<lparr>holding = {\<lparr>obj_type = PromiseGuard Communicator, obj_id = 1\<rparr>,
        \<lparr>obj_type = PromiseGuard Tile, obj_id = 3\<rparr>}, req = 0, trace = []\<rparr>)) =
     {\<lparr>obj_type = PromiseGuard Tile, obj_id = 3\<rparr>} \<and>
   \<lparr>obj_type = PromiseGuard Tile, obj_id = 3\<rparr> \<in>
     holding (snd (MPICallHelper (\<lambda>args. ()) 1
     [\<lparr>obj_type = PromiseGuard Communicator, obj_id = 1\<rparr>,
      \<lparr>obj_type = PromiseGuard Tile, obj_id = 3\<rparr>]
     \<lparr>holding = {\<lparr>obj_type = PromiseGuard Communicator, obj_id = 1\<rparr>,
        \<lparr>obj_type = PromiseGuard Tile, obj_id = 3\<rparr>}, req = 0, trace = []\<rparr>))"
  using only_communicator_guard_consumed [of "\<lparr>obj_type = PromiseGuard Tile, obj_id = 3\<rparr>"
     "\<lparr>holding = {\<lparr>obj_type = PromiseGuard Communicator, obj_id = 1\<rparr>,
        \<lparr>obj_type = PromiseGuard Tile, obj_id = 3\<rparr>}, req = 0, trace = []\<rparr>"
     "\<lambda>args. ()" 1
     "[\<lparr>obj_type = PromiseGuard Communicator, obj_id = 1\<rparr>,
      \<lparr>obj_type = PromiseGuard Tile, obj_id = 3\<rparr>]"]
   only_communicator_guard_consumed [of "\<lparr>obj_type = PromiseGuard Communicator, obj_id = 1\<rparr>"
     "\<lparr>holding = {\<lparr>obj_type = PromiseGuard Communicator, obj_id = 1\<rparr>,
        \<lparr>obj_type = PromiseGuard Tile, obj_id = 3\<rparr>}, req = 0, trace = []\<rparr>"
     "\<lambda>args. ()" 1
     "[\<lparr>obj_type = PromiseGuard Communicator, obj_id = 1\<rparr>,
      \<lparr>obj_type = PromiseGuard Tile, obj_id = 3\<rparr>]"]
  by (simp add: guards_def insert_Diff_if)


section \<open>Copies of the broadcast kernels\<close>

lemma scheduleSendBcast_staged:
  "device tile \<noteq> cd (device tile) \<Longrightarrow>
   scheduleSendBcast cd scratch tile =
     (tile, [Copied_to_temporary (elements tile), Bridged_send (elements tile)])"
  by (simp add: scheduleSendBcast_def withTemporaryTile_def send_def sendBcast_o_def)

lemma scheduleSendBcast_direct:
  "device tile = cd (device tile) \<Longrightarrow>
   scheduleSendBcast cd scratch tile = (tile, [Bridged_send (elements tile)])"
  by (simp add: scheduleSendBcast_def withTemporaryTile_def send_def sendBcast_o_def)

lemma scheduleRecvBcast_staged:
  "device tile \<noteq> cd (device tile) \<Longrightarrow>
   scheduleRecvBcast cd scratch incoming root_rank tile =
     (tile\<lparr>elements := incoming\<rparr>,
      [Bridged_recv root_rank scratch, Copied_from_temporary incoming])"
  by (simp add: scheduleRecvBcast_def withTemporaryTile_def recv_def recvBcast_o_def)

lemma scheduleRecvBcast_direct:
  "device tile = cd (device tile) \<Longrightarrow>
   scheduleRecvBcast cd scratch incoming root_rank tile =
     (tile\<lparr>elements := incoming\<rparr>, [Bridged_recv root_rank (elements tile)])"
  by (simp add: scheduleRecvBcast_def withTemporaryTile_def recv_def recvBcast_o_def)

text \<open>
  Claim C8. The broadcast send kernel, when it stages, copies the input tile into the
  temporary tile before the bridged send and never copies the temporary back: the input
  tile is unchanged and the elements sent are the input's. The broadcast receive kernel
  never copies the destination into the temporary (the buffer handed to the receive is a
  fresh one when it stages), and when it stages it copies the temporary back after the
  receive; either way the destination then holds the elements received.
\<close>

theorem broadcast_staging_copies:
  "fst (scheduleSendBcast cd scratch tile) = tile \<and>
   (\<forall>xs. Copied_from_temporary xs \<notin> set (snd (scheduleSendBcast cd scratch tile))) \<and>
   (device tile \<noteq> cd (device tile) \<longrightarrow>
      snd (scheduleSendBcast cd scratch tile) =
        [Copied_to_temporary (elements tile), Bridged_send (elements tile)]) \<and>
   (device tile = cd (device tile) \<longrightarrow>
      snd (scheduleSendBcast cd scratch tile) = [Bridged_send (elements tile)]) \<and>
   fst (scheduleRecvBcast cd scratch incoming root_rank tile) = tile\<lparr>elements := incoming\<rparr> \<and>
   (\<forall>xs. Copied_to_temporary xs \<notin> set (snd (scheduleRecvBcast cd scratch incoming root_rank tile))) \<and>
   (device tile \<noteq> cd (device tile) \<longrightarrow>
      snd (scheduleRecvBcast cd scratch incoming root_rank tile) =
        [Bridged_recv root_rank scratch, Copied_from_temporary incoming]) \<and>
   (device tile = cd (device tile) \<longrightarrow>
      snd (scheduleRecvBcast cd scratch incoming root_rank tile) =
        [Bridged_recv root_rank (elements tile)])"
  by (cases "device tile = cd (device tile)")
    (simp_all add: scheduleSendBcast_staged scheduleSendBcast_direct
      scheduleRecvBcast_staged scheduleRecvBcast_direct)

theorem broadcast_staging_copies_witness:
  "scheduleSendBcast (\<lambda>d. CPU) [0, 0] \<lparr>device = GPU, elements = [1, 2 :: int]\<rparr> =
     (\<lparr>device = GPU, elements = [1, 2]\<rparr>, [Copied_to_temporary [1, 2], Bridged_send [1, 2]]) \<and>
   scheduleSendBcast (\<lambda>d. CPU) [0, 0] \<lparr>device = CPU, elements = [1, 2 :: int]\<rparr> =
     (\<lparr>device = CPU, elements = [1, 2]\<rparr>, [Bridged_send [1, 2]]) \<and>
   scheduleRecvBcast (\<lambda>d. CPU) [0, 0] [1, 2] 0 \<lparr>device = GPU, elements = [7, 8 :: int]\<rparr> =
     (\<lparr>device = GPU, elements = [1, 2]\<rparr>, [Bridged_recv 0 [0, 0], Copied_from_temporary [1, 2]]) \<and>
   scheduleRecvBcast (\<lambda>d. CPU) [0, 0] [1, 2] 0 \<lparr>device = CPU, elements = [7, 8 :: int]\<rparr> =
     (\<lparr>device = CPU, elements = [1, 2]\<rparr>, [Bridged_recv 0 [7, 8]])"
  using broadcast_staging_copies [of "\<lambda>d. CPU" "[0, 0]" "\<lparr>device = GPU, elements = [1, 2 :: int]\<rparr>" "[1, 2]" 0]
    broadcast_staging_copies [of "\<lambda>d. CPU" "[0, 0]" "\<lparr>device = CPU, elements = [1, 2 :: int]\<rparr>" "[1, 2]" 0]
    broadcast_staging_copies [of "\<lambda>d. CPU" "[0, 0]" "\<lparr>device = GPU, elements = [7, 8 :: int]\<rparr>" "[1, 2]" 0]
    broadcast_staging_copies [of "\<lambda>d. CPU" "[0, 0]" "\<lparr>device = CPU, elements = [7, 8 :: int]\<rparr>" "[1, 2]" 0]
  by (simp add: prod_eq_iff)

end
